theory Spec2Isabelle
  imports Complex_Main "HOL-Library.Sublist" "HOL-Library.Multiset"
begin

section \<open>Data model of \<open>microsim/schema/optical_config/config.py\<close>\<close>

text \<open>
  The module builds on classes that live in other modules of the package: \<open>Spectrum\<close>,
  \<open>Filter\<close> with its \<open>Placement\<close> enumeration, \<open>SpectrumFilter\<close>, \<open>Fluorophore\<close> and
  the FPbase client. The type of spectra is therefore a type variable \<open>'s\<close>, and every
  operation of those classes that \<open>config.py\<close> calls is a field of the record
  \<open>collaborators\<close> below; the functions of \<open>config.py\<close> take that record as their
  first argument.

  Python objects are modelled as values: two equal records stand for "the same object".
\<close>

datatype error =
    ValueError string
  | UnpackError
  | RemoteError string

text \<open>
  \<open>UnpackError\<close> is the \<open>ValueError\<close> Python raises when the right-hand side of
  \<open>a, b = ...\<close> does not have exactly two items. \<open>RemoteError\<close> stands for whatever
  the FPbase client raises.
\<close>

datatype Placement = EX_PATH | EM_PATH | BS | BS_INV | ALL_PATHS

text \<open>\<open>ALL_PATHS\<close> is \<open>Placement.ALL\<close> (\<open>ALL\<close> is reserved syntax of HOL).\<close>

text \<open>
  Modelled from the spec: the \<open>Filter\<close> classes are defined in \<open>filter.py\<close>, outside
  \<open>config.py\<close>. \<open>config.py\<close> reads \<open>name\<close>, \<open>placement\<close> and \<open>spectrum\<close> of a
  filter, calls \<open>inverted()\<close> on it, and builds a \<open>SpectrumFilter\<close> from a name and a
  transmission spectrum, which is then that filter's \<open>spectrum\<close>.
\<close>

record 's Filter =
  name :: string
  placement :: Placement
  spectrum :: 's

record 's LightSource =
  name :: string
  spectrum :: 's
  power :: "real option"

record 's OpticalConfig =
  name :: string
  filters :: "'s Filter list"
  lights :: "'s LightSource list"
  power :: "real option"

subsection \<open>Arrays\<close>

text \<open>
  A float64 value is a finite number, written as the real number it denotes, or one of
  \<open>inf\<close>, \<open>-inf\<close> and \<open>nan\<close>. The sign of zero is not modelled.
\<close>

datatype fval = Fin real | PInf | NInf | NaN

text \<open>
  Modelled from the spec: a labelled numeric array over the wavelength coordinate
  \<open>w\<close> (an \<open>xarray.DataArray\<close>): its name, its attributes and one value per
  wavelength. \<open>attrs\<close> holds the attributes that \<open>config.py\<close> sets itself.
\<close>

record 'v DataArray =
  da_name :: "string option"
  attrs :: "string \<rightharpoonup> string"
  points :: "(real \<times> 'v) list"

text \<open>
  Modelled from the spec: a fluorophore exposes \<open>absorption_cross_section\<close>, a curve
  over the wavelength axis (in cm^2); the class is defined outside \<open>config.py\<close>.
\<close>

record Fluorophore =
  absorption_cross_section :: "real DataArray"

subsection \<open>The collaborators\<close>

text \<open>
  \<^item> \<open>spectrum_mul\<close> is \<open>Spectrum.__mul__\<close>;
  \<^item> \<open>inverted\<close> is \<open>Filter.inverted\<close>;
  \<^item> \<open>default_placement\<close> is the placement of a \<open>SpectrumFilter\<close> built without one;
  \<^item> \<open>as_xarray\<close> is \<open>Spectrum.as_xarray\<close>; a spectrum holds finite numbers;
  \<^item> \<open>array_sum\<close> is \<open>DataArray.sum()\<close> on the values of an array: the float64 sum
    as numpy computes it, which rounds and can overflow to \<open>inf\<close>;
  \<^item> \<open>float_div\<close> is the float64 division of a value by such a sum, which rounds;
  \<^item> \<open>da_mul\<close> is the product of two arrays, which xarray aligns on \<open>w\<close> first.
\<close>

record 's collaborators =
  spectrum_mul :: "'s \<Rightarrow> 's \<Rightarrow> 's"
  inverted :: "'s Filter \<Rightarrow> 's Filter"
  default_placement :: Placement
  as_xarray :: "'s \<Rightarrow> real DataArray"
  array_sum :: "real list \<Rightarrow> fval"
  float_div :: "real \<Rightarrow> fval \<Rightarrow> fval"
  da_mul :: "fval DataArray \<Rightarrow> real DataArray \<Rightarrow> fval DataArray"

definition SpectrumFilter :: "'s collaborators \<Rightarrow> string \<Rightarrow> 's \<Rightarrow> 's Filter" where
  "SpectrumFilter K n transmission =
     \<lparr>Filter.name = n, placement = default_placement K, spectrum = transmission\<rparr>"

section \<open>Merging filters by placement\<close>

text \<open>
  The loop of \<open>OpticalConfig.excitation\<close>: \<open>acc\<close> is the list \<open>filters\<close> it appends to.
\<close>

fun excitation_loop :: "'s collaborators \<Rightarrow> 's Filter list \<Rightarrow> 's Filter list \<Rightarrow> 's Filter list" where
  "excitation_loop K acc [] = acc"
| "excitation_loop K acc (f # fs) =
     (let acc1 = (if placement f \<in> {EX_PATH, BS_INV, ALL_PATHS} then acc @ [f] else acc);
          acc2 = (if placement f = BS then acc1 @ [inverted K f] else acc1)
      in excitation_loop K acc2 fs)"

text \<open>The loop of \<open>OpticalConfig.emission\<close>.\<close>

fun emission_loop :: "'s collaborators \<Rightarrow> 's Filter list \<Rightarrow> 's Filter list \<Rightarrow> 's Filter list" where
  "emission_loop K acc [] = acc"
| "emission_loop K acc (f # fs) =
     (let acc1 = (if placement f \<in> {EM_PATH, BS, ALL_PATHS} then acc @ [f] else acc);
          acc2 = (if placement f = BS_INV then acc1 @ [inverted K f] else acc1)
      in emission_loop K acc2 fs)"

text \<open>The loop of \<open>OpticalConfig._merge\<close> over \<open>filters[1:]\<close>.\<close>

fun merge_loop :: "'s collaborators \<Rightarrow> 's \<Rightarrow> 's Filter list \<Rightarrow> 's" where
  "merge_loop K effective_spectrum [] = effective_spectrum"
| "merge_loop K effective_spectrum (filt # rest) =
     merge_loop K (spectrum_mul K effective_spectrum (Filter.spectrum filt)) rest"

text \<open>\<open>OpticalConfig._merge\<close>; the argument \<open>path\<close> is its parameter \<open>spectrum\<close>.\<close>

fun merge_filters ::
  "'s collaborators \<Rightarrow> 's OpticalConfig \<Rightarrow> 's Filter list \<Rightarrow> string \<Rightarrow> 's Filter option" where
  "merge_filters K self [] path = None"
| "merge_filters K self [f] path = Some f"
| "merge_filters K self (f0 # rest) path =
     Some (SpectrumFilter K
       (''Effective '' @ path @ '' for '' @ OpticalConfig.name self)
       (merge_loop K (Filter.spectrum f0) rest))"

definition excitation :: "'s collaborators \<Rightarrow> 's OpticalConfig \<Rightarrow> 's Filter option" where
  "excitation K self =
     merge_filters K self (excitation_loop K [] (filters self)) ''excitation''"

definition emission :: "'s collaborators \<Rightarrow> 's OpticalConfig \<Rightarrow> 's Filter option" where
  "emission K self =
     merge_filters K self (emission_loop K [] (filters self)) ''emission''"

section \<open>Illumination\<close>

text \<open>The loop of \<open>OpticalConfig.illumination\<close> over the lights after the first.\<close>

fun illumination_loop :: "'s collaborators \<Rightarrow> 's \<Rightarrow> 's LightSource list \<Rightarrow> 's" where
  "illumination_loop K illum_spect [] = illum_spect"
| "illumination_loop K illum_spect (light # rest) =
     illumination_loop K (spectrum_mul K illum_spect (LightSource.spectrum light)) rest"

text \<open>
  \<open>if exc\<close> tests a \<open>Filter | None\<close>: a filter object is true, \<open>None\<close> is false.
\<close>

definition illumination :: "'s collaborators \<Rightarrow> 's OpticalConfig \<Rightarrow> 's option" where
  "illumination K self =
     (let exc = excitation K self in
      case lights self of
        l0 # rest \<Rightarrow>
          (let illum_spect = illumination_loop K (LightSource.spectrum l0) rest in
           case exc of
             Some e \<Rightarrow> Some (spectrum_mul K illum_spect (Filter.spectrum e))
           | None \<Rightarrow> Some illum_spect)
      | [] \<Rightarrow> (case exc of Some e \<Rightarrow> Some (Filter.spectrum e) | None \<Rightarrow> None))"

section \<open>Irradiance and absorption rate\<close>

text \<open>
  Division of one finite number by another, as numpy computes it: a zero divisor
  gives an infinity, or \<open>nan\<close> for \<open>0 / 0\<close>, and no exception. The quotient is the
  exact one: rounding and overflow are not modelled in \<open>rdiv\<close> and \<open>fdiv\<close>.
\<close>

definition rdiv :: "real \<Rightarrow> real \<Rightarrow> fval" where
  "rdiv a b =
     (if b \<noteq> 0 then Fin (a / b)
      else if 0 < a then PInf
      else if a < 0 then NInf
      else NaN)"

fun fdiv :: "fval \<Rightarrow> fval \<Rightarrow> fval" where
  "fdiv NaN y = NaN"
| "fdiv x NaN = NaN"
| "fdiv (Fin a) (Fin b) = rdiv a b"
| "fdiv (Fin a) PInf = Fin 0"
| "fdiv (Fin a) NInf = Fin 0"
| "fdiv PInf (Fin b) = (if 0 \<le> b then PInf else NInf)"
| "fdiv NInf (Fin b) = (if 0 \<le> b then NInf else PInf)"
| "fdiv x y = NaN"

text \<open>
  \<open>OpticalConfig.irradiance\<close>: \<open>irrad / irrad.sum()\<close> divides every value of the array by
  the sum of its values, in float64. The commented-out scaling by \<open>self.power\<close> is no
  code.
\<close>

definition irradiance :: "'s collaborators \<Rightarrow> 's OpticalConfig \<Rightarrow> error + fval DataArray" where
  "irradiance K self =
     (case illumination K self of
        None \<Rightarrow> Inl (ValueError ''This Optical Config has no illumination spectrum.'')
      | Some illum \<Rightarrow>
          (let irrad = as_xarray K illum;
               total = array_sum K (map snd (points irrad));
               normalized = map (\<lambda>(w, v). (w, float_div K v total)) (points irrad)
           in Inr \<lparr>da_name = Some ''irradiance'',
                    attrs = [''long_name'' \<mapsto> ''Irradiance'', ''units'' \<mapsto> ''W/cm^2''],
                    points = normalized\<rparr>))"

text \<open>\<open>scipy.constants.h\<close> (J s) and \<open>scipy.constants.c\<close> (m/s).\<close>

definition planck_h :: real where
  "planck_h = 662607015 / 10 ^ 42"

definition speed_c :: real where
  "speed_c = 299792458"

text \<open>
  \<open>OpticalConfig.absorption_rate\<close>. \<open>joules_per_photon\<close> has the coordinates of
  \<open>watts_absorbed\<close>, so the last division pairs the values position by position.
\<close>

definition absorption_rate ::
  "'s collaborators \<Rightarrow> 's OpticalConfig \<Rightarrow> Fluorophore \<Rightarrow> error + fval DataArray" where
  "absorption_rate K self fluorophore =
     (case irradiance K self of
        Inl e \<Rightarrow> Inl e
      | Inr irrad \<Rightarrow>
          (let cross_section = absorption_cross_section fluorophore;
               watts_absorbed = da_mul K irrad cross_section;
               wavelength_meters = map (\<lambda>(w, v). (w, w * (1 / 10 ^ 9))) (points watts_absorbed);
               joules_per_photon = map (\<lambda>(w, m). (w, rdiv (planck_h * speed_c) m)) wavelength_meters;
               abs_rate = map2 (\<lambda>(w, a) (w', j). (w, fdiv a j)) (points watts_absorbed) joules_per_photon
           in Inr \<lparr>da_name = Some ''absorption_rate'',
                    attrs = [''long_name'' \<mapsto> ''Absorption rate'',
                             ''units'' \<mapsto> ''photons/s/fluorophore''],
                    points = abs_rate\<rparr>))"


section \<open>Python strings\<close>

text \<open>
  A string is a list of characters, read as code points below 256. \<open>py_in\<close> is the
  operator \<open>in\<close> on strings, \<open>py_split\<close> is \<open>s.split("::")\<close>, \<open>py_lower\<close> is
  \<open>str.lower\<close>, \<open>py_repr\<close> is \<open>repr\<close> of a string and \<open>py_join\<close> is \<open>sep.join\<close>.
\<close>

fun py_in :: "string \<Rightarrow> string \<Rightarrow> bool" where
  "py_in sub [] = (sub = [])"
| "py_in sub (c # cs) = (prefix sub (c # cs) \<or> py_in sub cs)"

fun split_loop :: "string \<Rightarrow> string \<Rightarrow> string list" where
  "split_loop cur [] = [rev cur]"
| "split_loop cur [a] = [rev (a # cur)]"
| "split_loop cur (a # b # s) =
     (if a = CHR '':'' \<and> b = CHR '':'' then rev cur # split_loop [] s
      else split_loop (a # cur) (b # s))"

definition py_split :: "string \<Rightarrow> string list" where
  "py_split s = split_loop [] s"

definition lower_char :: "char \<Rightarrow> char" where
  "lower_char ch =
     (let n = (of_char ch :: nat) in
      if (65 \<le> n \<and> n \<le> 90) \<or> (192 \<le> n \<and> n \<le> 222 \<and> n \<noteq> 215)
      then char_of (n + 32) else ch)"

definition py_lower :: "string \<Rightarrow> string" where
  "py_lower s = map lower_char s"

definition hex_digit :: "nat \<Rightarrow> char" where
  "hex_digit n = ''0123456789abcdef'' ! (n mod 16)"

definition repr_char :: "char \<Rightarrow> char \<Rightarrow> string" where
  "repr_char quote ch =
     (let n = (of_char ch :: nat) in
      if ch = quote \<or> ch = CHR 0x5C then [CHR 0x5C, ch]
      else if n = 9 then [CHR 0x5C, CHR ''t'']
      else if n = 10 then [CHR 0x5C, CHR ''n'']
      else if n = 13 then [CHR 0x5C, CHR ''r'']
      else if n < 32 \<or> (127 \<le> n \<and> n \<le> 160) \<or> n = 173
        then [CHR 0x5C, CHR ''x'', hex_digit (n div 16), hex_digit n]
      else [ch])"

text \<open>
  \<open>repr\<close> encloses a string in single quotes, or in double quotes when the string has
  a single quote and no double quote.
\<close>

definition repr_quote :: "string \<Rightarrow> char" where
  "repr_quote s = (if CHR 0x27 \<in> set s \<and> CHR 0x22 \<notin> set s then CHR 0x22 else CHR 0x27)"

definition py_repr :: "string \<Rightarrow> string" where
  "py_repr s =
     (let quote = repr_quote s
      in quote # concat (map (repr_char quote) s) @ [quote])"

text \<open>Whether \<open>repr\<close> writes some character of the string as an escape sequence.\<close>

definition repr_escapes :: "string \<Rightarrow> bool" where
  "repr_escapes s = list_ex (\<lambda>ch. repr_char (repr_quote s) ch \<noteq> [ch]) s"

fun py_join :: "string \<Rightarrow> string list \<Rightarrow> string" where
  "py_join sep [] = []"
| "py_join sep [x] = x"
| "py_join sep (x # y # ys) = x @ sep @ py_join sep (y # ys)"

section \<open>Construction from FPbase\<close>

text \<open>
  Modelled from the spec: the FPbase client of \<open>microsim.fpbase\<close> is not part of the
  sources. \<open>get_microscope(id)\<close> returns an object with \<open>opticalConfigs\<close>, a list of
  records each with \<open>name\<close>, an optional \<open>light\<close> and \<open>filters\<close>; a light has a
  \<open>name\<close> and a \<open>spectrum\<close>.
\<close>

record 'rs SpectrumOwner =
  so_name :: string
  so_spectrum :: 'rs

record ('rs, 'rf) FPbaseOpticalConfig =
  oc_name :: string
  oc_light :: "'rs SpectrumOwner option"
  oc_filters :: "'rf list"

record ('rs, 'rf) FPbaseMicroscope =
  opticalConfigs :: "('rs, 'rf) FPbaseOpticalConfig list"

text \<open>
  \<^item> \<open>get_microscope\<close> is the FPbase client's function; it may raise;
  \<^item> \<open>spectrum_from_fpbase\<close> is \<open>Spectrum.from_fpbase\<close>;
  \<^item> \<open>filter_from_fpbase\<close> is \<open>SpectrumFilter.from_fpbase\<close>;
  \<^item> \<open>model_dump\<close> is the method of the base model that turns a configuration into
    a dictionary, of a type \<open>'d\<close>;
  \<^item> \<open>model_validate\<close> is the field validation that builds a configuration from a
    dictionary.
\<close>

record ('s, 'rs, 'rf, 'd) fpbase =
  get_microscope :: "string \<Rightarrow> error + ('rs, 'rf) FPbaseMicroscope"
  spectrum_from_fpbase :: "'rs \<Rightarrow> 's"
  filter_from_fpbase :: "'rf \<Rightarrow> 's Filter"
  model_dump :: "'s OpticalConfig \<Rightarrow> 'd"
  model_validate :: "'d \<Rightarrow> error + 's OpticalConfig"

text \<open>\<open>LightSource.from_fpbase\<close>; \<open>power\<close> keeps its default \<open>None\<close>.\<close>

definition LightSource_from_fpbase ::
  "('s, 'rs, 'rf, 'd) fpbase \<Rightarrow> 'rs SpectrumOwner \<Rightarrow> 's LightSource" where
  "LightSource_from_fpbase F light =
     \<lparr>LightSource.name = so_name light,
      spectrum = spectrum_from_fpbase F (so_spectrum light),
      power = None\<rparr>"

text \<open>
  The loop of \<open>OpticalConfig.from_fpbase\<close> over \<open>fpbase_scope.opticalConfigs\<close>: the
  configuration it returns, or \<open>None\<close> when it runs to its end. \<open>if cfg.light\<close> tests
  an optional record.
\<close>

fun from_fpbase_loop ::
  "('s, 'rs, 'rf, 'd) fpbase \<Rightarrow> string \<Rightarrow> ('rs, 'rf) FPbaseOpticalConfig list
    \<Rightarrow> 's OpticalConfig option" where
  "from_fpbase_loop F config_name [] = None"
| "from_fpbase_loop F config_name (cfg # rest) =
     (if py_lower (oc_name cfg) = py_lower config_name then
        (let lights = (case oc_light cfg of
                         Some l \<Rightarrow> [LightSource_from_fpbase F l]
                       | None \<Rightarrow> [])
         in Some \<lparr>OpticalConfig.name = oc_name cfg,
                   filters = map (filter_from_fpbase F) (oc_filters cfg),
                   lights = lights,
                   power = None\<rparr>)
      else from_fpbase_loop F config_name rest)"

definition not_found_message ::
  "string \<Rightarrow> string \<Rightarrow> ('rs, 'rf) FPbaseOpticalConfig list \<Rightarrow> string" where
  "not_found_message config_name microscope_id cfgs =
     ''Could not find config named '' @ py_repr config_name @
     '' in FPbase microscope '' @ py_repr microscope_id @
     ''. Available names: '' @ py_join '', '' (map (\<lambda>c. py_repr (oc_name c)) cfgs)"

text \<open>
  \<open>OpticalConfig.from_fpbase\<close>. The second component of the result is the list of the
  microscope ids that were passed to \<open>get_microscope\<close>: the lookups performed.
\<close>

definition from_fpbase ::
  "('s, 'rs, 'rf, 'd) fpbase \<Rightarrow> string \<Rightarrow> string option
    \<Rightarrow> (error + 's OpticalConfig) \<times> string list" where
  "from_fpbase F microscope_id config_name =
     (case (case config_name of
              None \<Rightarrow>
                (if \<not> py_in ''::'' microscope_id then
                   Inl (ValueError (''If config_name is not provided, microscope_id must be '' @
                                    ''in the form 'scope::config'' @ [CHR 0x27]))
                 else (case py_split microscope_id of
                         [a, b] \<Rightarrow> Inr (a, b)
                       | _ \<Rightarrow> Inl UnpackError))
            | Some n \<Rightarrow> Inr (microscope_id, n)) of
        Inl e \<Rightarrow> (Inl e, [])
      | Inr (mid, cn) \<Rightarrow>
          (case get_microscope F mid of
             Inl e \<Rightarrow> (Inl e, [mid])
           | Inr fpbase_scope \<Rightarrow>
               (case from_fpbase_loop F cn (opticalConfigs fpbase_scope) of
                  Some cfg \<Rightarrow> (Inr cfg, [mid])
                | None \<Rightarrow>
                    (Inl (ValueError (not_found_message cn mid (opticalConfigs fpbase_scope))),
                     [mid]))))"




section \<open>Example instances\<close>

text \<open>
  Spectra sampled at the single wavelength of 500 nm: a spectrum is its one intensity,
  the product of spectra is the product of intensities, and inverting a filter
  complements its transmission. The product of arrays pairs the values by position.
  The sum and the division are the exact ones; the examples use them on numbers on
  which float64 is exact as well.
\<close>

fun fscale :: "fval \<Rightarrow> real \<Rightarrow> fval" where
  "fscale (Fin a) y = Fin (a * y)"
| "fscale PInf y = (if 0 < y then PInf else if y < 0 then NInf else NaN)"
| "fscale NInf y = (if 0 < y then NInf else if y < 0 then PInf else NaN)"
| "fscale NaN y = NaN"

definition one_bin :: "real collaborators" where
  "one_bin =
     \<lparr>spectrum_mul = (\<lambda>a b. a * b),
      inverted = (\<lambda>f. \<lparr>Filter.name = Filter.name f @ '' (inverted)'',
                          placement = placement f,
                          spectrum = 1 - Filter.spectrum f\<rparr>),
      default_placement = ALL_PATHS,
      as_xarray = (\<lambda>s. \<lparr>da_name = None, attrs = Map.empty, points = [(500, s)]\<rparr>),
      array_sum = (\<lambda>vs. Fin (sum_list vs)),
      float_div = (\<lambda>v t. fdiv (Fin v) t),
      da_mul = (\<lambda>a b. \<lparr>da_name = None, attrs = Map.empty,
                          points = map2 (\<lambda>(w, x) (w', y). (w, fscale x y))
                                     (points a) (points b)\<rparr>)\<rparr>"



definition dichroic :: "Placement \<Rightarrow> real Filter" where
  "dichroic p = \<lparr>Filter.name = ''dichroic'', placement = p, spectrum = 1 / 4\<rparr>"

definition exciter :: "real Filter" where
  "exciter = \<lparr>Filter.name = ''exciter'', placement = EX_PATH, spectrum = 1 / 2\<rparr>"

definition barrier :: "real Filter" where
  "barrier = \<lparr>Filter.name = ''barrier'', placement = EM_PATH, spectrum = 1 / 5\<rparr>"


definition laser :: "real LightSource" where
  "laser = \<lparr>LightSource.name = ''500nm Laser'', spectrum = 1, power = None\<rparr>"

definition channel :: "real Filter list \<Rightarrow> real LightSource list \<Rightarrow> real OpticalConfig" where
  "channel fs ls = \<lparr>OpticalConfig.name = ''FITC'', filters = fs, lights = ls, power = None\<rparr>"

text \<open>
  A microscope \<open>scopeX\<close> with three configurations, one of them with a backslash and
  one with two colons in its name. The remote records hold spectra and filters as the
  program does, and dumping and validating a configuration change nothing.
\<close>

definition scopeX :: "(real, real Filter) FPbaseMicroscope" where
  "scopeX =
     \<lparr>opticalConfigs =
        [\<lparr>oc_name = ''FITC'',
          oc_light = Some \<lparr>so_name = ''488'', so_spectrum = 1\<rparr>,
          oc_filters = [exciter, dichroic BS]\<rparr>,
         \<lparr>oc_name = [CHR ''a'', CHR 0x5C, CHR ''b''], oc_light = None, oc_filters = []\<rparr>,
         \<lparr>oc_name = ''dual::view'', oc_light = None, oc_filters = [barrier]\<rparr>]\<rparr>"

definition example_fpbase :: "(real, real, real Filter, real OpticalConfig) fpbase" where
  "example_fpbase =
     \<lparr>get_microscope =
        (\<lambda>i. if i = ''scopeX'' then Inr scopeX else Inl (RemoteError ''no such microscope'')),
      spectrum_from_fpbase = (\<lambda>r. r),
      filter_from_fpbase = (\<lambda>f. f),
      model_dump = (\<lambda>c. c),
      model_validate = Inr\<rparr>"

definition dye :: Fluorophore where
  "dye = \<lparr>absorption_cross_section =
            \<lparr>da_name = None, attrs = Map.empty, points = [(500, 1 / 10 ^ 16)]\<rparr>\<rparr>"

section \<open>Filters and their placement\<close>

lemma excitation_loop_acc:
  "excitation_loop K acc fs = acc @ excitation_loop K [] fs"
proof (induction fs arbitrary: acc)
  case Nil
  show ?case by simp
next
  case (Cons f fs)
  define step where "step =
    (if placement f \<in> {EX_PATH, BS_INV, ALL_PATHS} then [f] else []) @
    (if placement f = BS then [inverted K f] else [])"
  have "excitation_loop K acc (f # fs) = excitation_loop K (acc @ step) fs"
    by (simp add: step_def Let_def)
  also have "\<dots> = acc @ step @ excitation_loop K [] fs"
    using Cons.IH [of "acc @ step"] by simp
  also have "step @ excitation_loop K [] fs = excitation_loop K step fs"
    using Cons.IH [of step] by simp
  also have "excitation_loop K step fs = excitation_loop K [] (f # fs)"
    by (simp add: step_def Let_def)
  finally show ?case .
qed

lemma emission_loop_acc:
  "emission_loop K acc fs = acc @ emission_loop K [] fs"
proof (induction fs arbitrary: acc)
  case Nil
  show ?case by simp
next
  case (Cons f fs)
  define step where "step =
    (if placement f \<in> {EM_PATH, BS, ALL_PATHS} then [f] else []) @
    (if placement f = BS_INV then [inverted K f] else [])"
  have "emission_loop K acc (f # fs) = emission_loop K (acc @ step) fs"
    by (simp add: step_def Let_def)
  also have "\<dots> = acc @ step @ emission_loop K [] fs"
    using Cons.IH [of "acc @ step"] by simp
  also have "step @ emission_loop K [] fs = emission_loop K step fs"
    using Cons.IH [of step] by simp
  also have "emission_loop K step fs = emission_loop K [] (f # fs)"
    by (simp add: step_def Let_def)
  finally show ?case .
qed

lemma excitation_loop_Cons:
  "excitation_loop K [] (f # fs) = excitation_loop K [] [f] @ excitation_loop K [] fs"
proof -
  have "excitation_loop K [] (f # fs) = excitation_loop K (excitation_loop K [] [f]) fs"
    by (simp add: Let_def)
  then show ?thesis
    using excitation_loop_acc [of K "excitation_loop K [] [f]" fs] by simp
qed

lemma emission_loop_Cons:
  "emission_loop K [] (f # fs) = emission_loop K [] [f] @ emission_loop K [] fs"
proof -
  have "emission_loop K [] (f # fs) = emission_loop K (emission_loop K [] [f]) fs"
    by (simp add: Let_def)
  then show ?thesis
    using emission_loop_acc [of K "emission_loop K [] [f]" fs] by simp
qed





lemma merge_loop_foldl:
  "merge_loop K s fs = foldl (spectrum_mul K) s (map Filter.spectrum fs)"
  by (induction fs arbitrary: s) simp_all

lemma merge_filters_None:
  "merge_filters K cfg fs path = None \<longleftrightarrow> fs = []"
proof (cases fs)
  case Nil
  then show ?thesis by simp
next
  case (Cons f rest)
  then show ?thesis by (cases rest) simp_all
qed

lemma merge_filters_fields:
  assumes "OpticalConfig.name cfg' = OpticalConfig.name cfg"
  shows "merge_filters K cfg' fs path = merge_filters K cfg fs path"
proof (cases fs)
  case Nil
  then show ?thesis by simp
next
  case (Cons f rest)
  then show ?thesis using assms by (cases rest) simp_all
qed

text \<open>
  Claim C2. For each path, \<open>_merge\<close> returns \<open>None\<close> when no filter contributes, the one
  contributing filter itself when there is exactly one, and otherwise a filter named
  \<open>"Effective {path} for {config.name}"\<close> whose spectrum is the product of the
  contributing spectra, folded from the first in list order. \<open>excitation\<close> and
  \<open>emission\<close> are this result on their lists of contributing filters.
\<close>

theorem merge_result_policy:
  "merge_filters K cfg fs path =
     (case fs of
        [] \<Rightarrow> None
      | [f] \<Rightarrow> Some f
      | f0 # f1 # rest \<Rightarrow>
          Some \<lparr>Filter.name = ''Effective '' @ path @ '' for '' @ OpticalConfig.name cfg,
                placement = default_placement K,
                spectrum = foldl (spectrum_mul K) (Filter.spectrum f0)
                             (map Filter.spectrum (f1 # rest))\<rparr>)
   \<and> excitation K cfg =
     (case excitation_loop K [] (filters cfg) of
        [] \<Rightarrow> None
      | [f] \<Rightarrow> Some f
      | f0 # f1 # rest \<Rightarrow>
          Some \<lparr>Filter.name = ''Effective excitation for '' @ OpticalConfig.name cfg,
                placement = default_placement K,
                spectrum = foldl (spectrum_mul K) (Filter.spectrum f0)
                             (map Filter.spectrum (f1 # rest))\<rparr>)
   \<and> emission K cfg =
     (case emission_loop K [] (filters cfg) of
        [] \<Rightarrow> None
      | [f] \<Rightarrow> Some f
      | f0 # f1 # rest \<Rightarrow>
          Some \<lparr>Filter.name = ''Effective emission for '' @ OpticalConfig.name cfg,
                placement = default_placement K,
                spectrum = foldl (spectrum_mul K) (Filter.spectrum f0)
                             (map Filter.spectrum (f1 # rest))\<rparr>)"
  by (simp add: excitation_def emission_def SpectrumFilter_def merge_loop_foldl
      split: list.split)

section \<open>Illumination\<close>

lemma illumination_loop_foldl:
  "illumination_loop K s ls = foldl (spectrum_mul K) s (map LightSource.spectrum ls)"
  by (induction ls arbitrary: s) simp_all

text \<open>
  Claim C3. With lights, \<open>illumination\<close> is the product of the light spectra, folded in
  list order from the first light's spectrum, times the spectrum of the excitation
  filter when \<open>excitation\<close> is not \<open>None\<close>. Without lights it is the spectrum of the
  excitation filter, or \<open>None\<close> when \<open>excitation\<close> is \<open>None\<close>.
\<close>

theorem illumination_fold:
  "illumination K cfg =
     (case lights cfg of
        [] \<Rightarrow> map_option Filter.spectrum (excitation K cfg)
      | l0 # rest \<Rightarrow>
          Some (let lit = foldl (spectrum_mul K) (LightSource.spectrum l0)
                            (map LightSource.spectrum rest)
                in case excitation K cfg of
                     None \<Rightarrow> lit
                   | Some e \<Rightarrow> spectrum_mul K lit (Filter.spectrum e)))"
  by (simp add: illumination_def Let_def illumination_loop_foldl
      split: list.split option.split)

section \<open>Order of the filters\<close>

lemma mset_excitation_loop:
  assumes "mset fs' = mset fs"
  shows "mset (excitation_loop K [] fs') = mset (excitation_loop K [] fs)"
proof -
  define contrib where "contrib = (\<lambda>f. excitation_loop K [] [f])"
  have conc: "mset (excitation_loop K [] xs) = (\<Sum>f\<in>#mset xs. mset (contrib f))" for xs
  proof (induction xs)
    case Nil
    show ?case by simp
  next
    case (Cons f xs)
    have "excitation_loop K [] (f # xs) = contrib f @ excitation_loop K [] xs"
      unfolding contrib_def by (rule excitation_loop_Cons)
    then show ?case using Cons.IH by simp
  qed
  show ?thesis by (simp add: conc assms)
qed

lemma mset_emission_loop:
  assumes "mset fs' = mset fs"
  shows "mset (emission_loop K [] fs') = mset (emission_loop K [] fs)"
proof -
  define contrib where "contrib = (\<lambda>f. emission_loop K [] [f])"
  have conc: "mset (emission_loop K [] xs) = (\<Sum>f\<in>#mset xs. mset (contrib f))" for xs
  proof (induction xs)
    case Nil
    show ?case by simp
  next
    case (Cons f xs)
    have "emission_loop K [] (f # xs) = contrib f @ emission_loop K [] xs"
      unfolding contrib_def by (rule emission_loop_Cons)
    then show ?case using Cons.IH by simp
  qed
  show ?thesis by (simp add: conc assms)
qed

text \<open>
  A product that is folded from its first factor does not depend on the order of the
  factors, when the multiplication is commutative and associative.
\<close>

lemma foldl_mul_perm:
  fixes m :: "'s \<Rightarrow> 's \<Rightarrow> 's"
  assumes comm: "\<And>a b. m a b = m b a"
    and assoc: "\<And>a b c. m (m a b) c = m a (m b c)"
    and eq: "mset (x # xs) = mset (y # ys)"
  shows "foldl m x xs = foldl m y ys"
proof -
  let ?g = "\<lambda>b a. m a b"
  have lc: "?g u \<circ> ?g v = ?g v \<circ> ?g u" for u v
  proof
    fix a
    have "m (m a v) u = m a (m v u)" by (rule assoc)
    also have "\<dots> = m a (m u v)" by (simp add: comm [of v u])
    also have "\<dots> = m (m a u) v" by (rule assoc [symmetric])
    finally show "(?g u \<circ> ?g v) a = (?g v \<circ> ?g u) a" by simp
  qed
  have fold_eq: "fold ?g as = fold ?g bs" if "mset as = mset bs" for as bs
    by (rule fold_multiset_equiv) (use lc that in auto)
  have fl: "foldl m a as = fold ?g as a" for a as
    by (simp add: foldl_conv_fold)
  show ?thesis
  proof (cases "x = y")
    case True
    with eq have "mset xs = mset ys" by simp
    then show ?thesis using fold_eq [of xs ys] True by (simp add: fl)
  next
    case False
    from eq False have "y \<in># mset xs"
      by (metis insert_noteq_member mset.simps(2))
    then obtain R where R: "mset xs = add_mset y R"
      by (meson mset_add)
    obtain r where r: "mset r = R"
      using ex_mset by blast
    from eq R have "add_mset x (add_mset y R) = add_mset y (mset ys)" by simp
    then have ys: "mset ys = add_mset x R"
      by (simp add: add_mset_commute)
    have "foldl m x xs = fold ?g (y # r) x"
      using fold_eq [of xs "y # r"] R r by (simp add: fl)
    also have "\<dots> = fold ?g r (m x y)" by simp
    also have "\<dots> = fold ?g r (m y x)" by (simp add: comm [of x y])
    also have "\<dots> = fold ?g (x # r) y" by simp
    also have "\<dots> = foldl m y ys"
      using fold_eq [of ys "x # r"] ys r by (simp add: fl)
    finally show ?thesis .
  qed
qed

lemma merge_filters_perm:
  assumes comm: "\<And>a b. spectrum_mul K a b = spectrum_mul K b a"
    and assoc: "\<And>a b c. spectrum_mul K (spectrum_mul K a b) c =
                  spectrum_mul K a (spectrum_mul K b c)"
    and eq: "mset fs' = mset fs"
  shows "map_option Filter.spectrum (merge_filters K cfg fs' path) =
         map_option Filter.spectrum (merge_filters K cfg fs path)"
proof (cases fs)
  case Nil
  with eq show ?thesis by simp
next
  case (Cons f0 rest)
  from eq Cons obtain g0 rest' where fs': "fs' = g0 # rest'"
    by (cases fs') auto
  from eq have len: "length fs' = length fs"
    by (metis size_mset)
  from eq Cons fs' have
    "mset (map Filter.spectrum (g0 # rest')) = mset (map Filter.spectrum (f0 # rest))"
    by (metis mset_map)
  then have m: "mset (Filter.spectrum g0 # map Filter.spectrum rest') =
      mset (Filter.spectrum f0 # map Filter.spectrum rest)"
    by simp
  have prod: "foldl (spectrum_mul K) (Filter.spectrum g0) (map Filter.spectrum rest') =
      foldl (spectrum_mul K) (Filter.spectrum f0) (map Filter.spectrum rest)"
    by (rule foldl_mul_perm [OF comm assoc m])
  show ?thesis
  proof (cases rest)
    case Nil
    with len Cons fs' have "rest' = []" by simp
    with Nil Cons fs' prod show ?thesis by simp
  next
    case (Cons f1 tl)
    with len \<open>fs = f0 # rest\<close> fs' obtain g1 tl' where "rest' = g1 # tl'"
      by (cases rest') auto
    with Cons \<open>fs = f0 # rest\<close> fs' prod show ?thesis
      by (simp add: SpectrumFilter_def merge_loop_foldl)
  qed
qed

text \<open>
  Claim C7. When the multiplication of spectra is commutative and associative, a
  configuration whose filter list is any permutation of the filter list of \<open>cfg\<close> has
  the same excitation spectrum and the same emission spectrum as \<open>cfg\<close>, and the one
  is absent exactly when the other is.
\<close>

theorem merge_order_independent:
  assumes "\<And>a b. spectrum_mul K a b = spectrum_mul K b a"
    and "\<And>a b c. spectrum_mul K (spectrum_mul K a b) c = spectrum_mul K a (spectrum_mul K b c)"
    and "mset fs' = mset (filters cfg)"
  shows "map_option Filter.spectrum (excitation K (cfg\<lparr>filters := fs'\<rparr>)) =
           map_option Filter.spectrum (excitation K cfg)
       \<and> map_option Filter.spectrum (emission K (cfg\<lparr>filters := fs'\<rparr>)) =
           map_option Filter.spectrum (emission K cfg)"
proof -
  have a: "merge_filters K (cfg\<lparr>filters := fs'\<rparr>) xs p = merge_filters K cfg xs p" for xs p
    by (rule merge_filters_fields) simp
  show ?thesis
    unfolding excitation_def emission_def a
    using merge_filters_perm [OF assms(1,2) mset_excitation_loop [OF assms(3)]]
      merge_filters_perm [OF assms(1,2) mset_emission_loop [OF assms(3)]]
    by simp
qed

theorem merge_order_independent_witness:
  "(\<forall>a b. spectrum_mul one_bin a b = spectrum_mul one_bin b a)
   \<and> (\<forall>a b c. spectrum_mul one_bin (spectrum_mul one_bin a b) c =
         spectrum_mul one_bin a (spectrum_mul one_bin b c))
   \<and> mset [barrier, dichroic BS, exciter] =
       mset (filters (channel [exciter, dichroic BS, barrier] []))
   \<and> map_option Filter.spectrum (excitation one_bin (channel [barrier, dichroic BS, exciter] [])) =
       map_option Filter.spectrum (excitation one_bin (channel [exciter, dichroic BS, barrier] []))
   \<and> map_option Filter.spectrum (excitation one_bin (channel [exciter, dichroic BS, barrier] [])) =
       Some (3 / 8)
   \<and> map_option Filter.spectrum (emission one_bin (channel [barrier, dichroic BS, exciter] [])) =
       map_option Filter.spectrum (emission one_bin (channel [exciter, dichroic BS, barrier] []))
   \<and> map_option Filter.spectrum (emission one_bin (channel [exciter, dichroic BS, barrier] [])) =
       Some (1 / 20)"
proof -
  have c: "\<And>a b. spectrum_mul one_bin a b = spectrum_mul one_bin b a"
    by (simp add: one_bin_def)
  have a: "\<And>a b c. spectrum_mul one_bin (spectrum_mul one_bin a b) c =
         spectrum_mul one_bin a (spectrum_mul one_bin b c)"
    by (simp add: one_bin_def)
  have m: "mset [barrier, dichroic BS, exciter] =
      mset (filters (channel [exciter, dichroic BS, barrier] []))"
    by (simp add: channel_def)
  have e: "(channel [exciter, dichroic BS, barrier] [])\<lparr>filters := [barrier, dichroic BS, exciter]\<rparr>
      = channel [barrier, dichroic BS, exciter] []"
    by (simp add: channel_def)
  have x: "map_option Filter.spectrum (excitation one_bin (channel [exciter, dichroic BS, barrier] [])) =
       Some (3 / 8)"
    by (simp add: excitation_def channel_def exciter_def dichroic_def barrier_def
        SpectrumFilter_def one_bin_def)
  have y: "map_option Filter.spectrum (emission one_bin (channel [exciter, dichroic BS, barrier] [])) =
       Some (1 / 20)"
    by (simp add: emission_def channel_def exciter_def dichroic_def barrier_def
        SpectrumFilter_def one_bin_def)
  show ?thesis
    using merge_order_independent [OF c a m] c a m x y unfolding e by blast
qed

section \<open>Irradiance\<close>







section \<open>Absorption rate\<close>

lemma photon_rate_points:
  "map2 (\<lambda>(w, a) (w', j). (w, fdiv a j)) ps
     (map (\<lambda>(w, m). (w, rdiv e m)) (map (\<lambda>(w, v). (w, w * k)) ps)) =
   map (\<lambda>(w, v). (w, fdiv v (rdiv e (w * k)))) ps"
  by (induction ps) (simp_all add: case_prod_beta)

lemma photon_rate_finite:
  "w \<noteq> 0 \<Longrightarrow>
   fdiv (Fin x) (rdiv (planck_h * speed_c) (w * (1 / 10 ^ 9))) =
   Fin (x / (planck_h * speed_c / (w * (1 / 10 ^ 9))))"
  by (simp add: rdiv_def planck_h_def speed_c_def)

text \<open>
  Claim C5. For a configuration whose illumination is present and any fluorophore,
  \<open>absorption_rate\<close> returns an array that has, at each wavelength \<open>w\<close> (in nm) of the
  product of the irradiance and the absorption cross-section, the value of that
  product divided by the photon energy \<open>h c / (w 1e-9)\<close>; its name is
  \<open>"absorption_rate"\<close>, its attribute \<open>long_name\<close> is \<open>"Absorption rate"\<close> and its
  attribute \<open>units\<close> is \<open>"photons/s/fluorophore"\<close>.
\<close>

theorem absorption_rate_formula:
  assumes "illumination K cfg = Some illum"
  shows "\<exists>irrad rate. irradiance K cfg = Inr irrad
     \<and> absorption_rate K cfg fl = Inr rate
     \<and> da_name rate = Some ''absorption_rate''
     \<and> attrs rate ''long_name'' = Some ''Absorption rate''
     \<and> attrs rate ''units'' = Some ''photons/s/fluorophore''
     \<and> points rate =
         map (\<lambda>(w, v). (w, fdiv v (rdiv (planck_h * speed_c) (w * (1 / 10 ^ 9)))))
           (points (da_mul K irrad (absorption_cross_section fl)))"
proof -
  obtain irrad where r: "irradiance K cfg = Inr irrad"
    by (simp add: irradiance_def assms Let_def)
  show ?thesis
    unfolding absorption_rate_def r Let_def photon_rate_points by simp
qed

theorem absorption_rate_formula_witness:
  "illumination one_bin (channel [exciter] [laser]) = Some (1 / 2)
   \<and> absorption_rate one_bin (channel [exciter] [laser]) dye =
       Inr \<lparr>da_name = Some ''absorption_rate'',
            attrs = [''long_name'' \<mapsto> ''Absorption rate'',
                     ''units'' \<mapsto> ''photons/s/fluorophore''],
            points = [(500, Fin ((1 * (1 / 10 ^ 16)) /
                                 (planck_h * speed_c / (500 * (1 / 10 ^ 9)))))]\<rparr>"
proof -
  have i: "illumination one_bin (channel [exciter] [laser]) = Some (1 / 2)"
    by (simp add: illumination_def excitation_def channel_def exciter_def laser_def one_bin_def)
  have v: "irradiance one_bin (channel [exciter] [laser]) =
       Inr \<lparr>da_name = Some ''irradiance'',
            attrs = [''long_name'' \<mapsto> ''Irradiance'', ''units'' \<mapsto> ''W/cm^2''],
            points = [(500, Fin 1)]\<rparr>"
    unfolding irradiance_def i by (simp add: Let_def one_bin_def rdiv_def)
  have w: "points (da_mul one_bin \<lparr>da_name = Some ''irradiance'',
            attrs = [''long_name'' \<mapsto> ''Irradiance'', ''units'' \<mapsto> ''W/cm^2''],
            points = [(500, Fin 1)]\<rparr> (absorption_cross_section dye)) = [(500, Fin (1 * (1 / 10 ^ 16)))]"
    by (simp add: one_bin_def dye_def)
  from absorption_rate_formula [OF i, of dye] obtain rate where
    a: "absorption_rate one_bin (channel [exciter] [laser]) dye = Inr rate"
    and n: "da_name rate = Some ''absorption_rate''"
    and p: "points rate =
         map (\<lambda>(w, v). (w, fdiv v (rdiv (planck_h * speed_c) (w * (1 / 10 ^ 9)))))
           (points (da_mul one_bin \<lparr>da_name = Some ''irradiance'',
            attrs = [''long_name'' \<mapsto> ''Irradiance'', ''units'' \<mapsto> ''W/cm^2''],
            points = [(500, Fin 1)]\<rparr> (absorption_cross_section dye)))"
    unfolding v by auto
  have p': "points rate = [(500, Fin ((1 * (1 / 10 ^ 16)) /
                                 (planck_h * speed_c / (500 * (1 / 10 ^ 9)))))]"
    unfolding p w using photon_rate_finite [of 500 "1 * (1 / 10 ^ 16)"] by simp
  have "absorption_rate one_bin (channel [exciter] [laser]) dye =
       Inr \<lparr>da_name = Some ''absorption_rate'',
            attrs = [''long_name'' \<mapsto> ''Absorption rate'',
                     ''units'' \<mapsto> ''photons/s/fluorophore''],
            points = points rate\<rparr>"
    using a by (auto simp add: absorption_rate_def v Let_def)
  with i p' show ?thesis by simp
qed

section \<open>The missing-illumination error\<close>

text \<open>
  Claim C6. The illumination is absent exactly when the configuration has no lights
  and no filter contributes to the excitation path. \<open>irradiance\<close> raises the
  \<open>ValueError\<close> "This Optical Config has no illumination spectrum." exactly when the
  illumination is absent, and \<open>absorption_rate\<close> raises the same error exactly then, on
  any fluorophore; neither of them raises anything when the illumination is present,
  and neither returns a value when it is absent.
\<close>

theorem missing_illumination:
  "(illumination K cfg = None \<longleftrightarrow>
      lights cfg = [] \<and> excitation_loop K [] (filters cfg) = [])
   \<and> (irradiance K cfg = Inl (ValueError ''This Optical Config has no illumination spectrum.'')
        \<longleftrightarrow> illumination K cfg = None)
   \<and> (absorption_rate K cfg fl =
        Inl (ValueError ''This Optical Config has no illumination spectrum.'')
        \<longleftrightarrow> illumination K cfg = None)
   \<and> (isl (irradiance K cfg) \<longleftrightarrow> illumination K cfg = None)
   \<and> (isl (absorption_rate K cfg fl) \<longleftrightarrow> illumination K cfg = None)"
proof -
  have ex: "excitation K cfg = None \<longleftrightarrow> excitation_loop K [] (filters cfg) = []"
    by (simp add: excitation_def merge_filters_None)
  have "illumination K cfg = None \<longleftrightarrow> lights cfg = [] \<and> excitation K cfg = None"
    by (simp add: illumination_def Let_def split: list.split option.split)
  with ex have a: "illumination K cfg = None \<longleftrightarrow>
      lights cfg = [] \<and> excitation_loop K [] (filters cfg) = []"
    by simp
  have b: "irradiance K cfg = Inl (ValueError ''This Optical Config has no illumination spectrum.'')
        \<longleftrightarrow> illumination K cfg = None"
    by (simp add: irradiance_def Let_def split: option.split)
  have c: "isl (irradiance K cfg) \<longleftrightarrow> illumination K cfg = None"
    by (simp add: irradiance_def Let_def split: option.split)
  have d: "absorption_rate K cfg fl =
        Inl (ValueError ''This Optical Config has no illumination spectrum.'')
        \<longleftrightarrow> illumination K cfg = None"
    using b c by (cases "irradiance K cfg") (auto simp add: absorption_rate_def Let_def)
  have e: "isl (absorption_rate K cfg fl) \<longleftrightarrow> illumination K cfg = None"
    using c by (cases "irradiance K cfg") (auto simp add: absorption_rate_def Let_def)
  from a b c d e show ?thesis by blast
qed

section \<open>Lookup in FPbase\<close>


lemma sublist_py_join:
  "x \<in> set xs \<Longrightarrow> sublist x (py_join sep xs)"
proof (induction sep xs rule: py_join.induct)
  case (1 sep)
  then show ?case by simp
next
  case (2 sep y)
  then show ?case by simp
next
  case (3 sep y z zs)
  show ?case
  proof (cases "x = y")
    case True
    then show ?thesis by (simp add: sublist_append_rightI)
  next
    case False
    with 3 have "sublist x (py_join sep (z # zs))" by simp
    then obtain ps ss where "py_join sep (z # zs) = ps @ x @ ss"
      by (auto simp add: sublist_def)
    then have "py_join sep (y # z # zs) = (y @ sep @ ps) @ x @ ss"
      by simp
    then show ?thesis
      unfolding sublist_def by blast
  qed
qed

lemma from_fpbase_loop_find:
  "from_fpbase_loop F cn cfgs =
     map_option (\<lambda>r. \<lparr>OpticalConfig.name = oc_name r,
                        filters = map (filter_from_fpbase F) (oc_filters r),
                        lights = (case oc_light r of
                                    None \<Rightarrow> []
                                  | Some l \<Rightarrow> [LightSource_from_fpbase F l]),
                        power = None\<rparr>)
       (find (\<lambda>c. py_lower (oc_name c) = py_lower cn) cfgs)"
  by (induction cfgs) (simp_all add: Let_def split: option.split)

lemma concat_singletons:
  "\<forall>ch\<in>set s. g ch = [ch] \<Longrightarrow> concat (map g s) = s"
  by (induction s) simp_all

lemma py_repr_plain:
  assumes "\<not> repr_escapes s"
  shows "py_repr s = repr_quote s # s @ [repr_quote s]"
proof -
  from assms have "\<forall>ch\<in>set s. repr_char (repr_quote s) ch = [ch]"
    by (simp add: repr_escapes_def list_ex_iff)
  then have "concat (map (repr_char (repr_quote s)) s) = s"
    by (rule concat_singletons)
  then show ?thesis by (simp add: py_repr_def Let_def)
qed

lemma repr_escapes_iff:
  "repr_escapes s \<longleftrightarrow>
     CHR 0x5C \<in> set s
   \<or> (CHR 0x27 \<in> set s \<and> CHR 0x22 \<in> set s)
   \<or> (\<exists>ch\<in>set s. (of_char ch :: nat) < 32 \<or> (127 \<le> (of_char ch :: nat) \<and> (of_char ch :: nat) \<le> 160)
         \<or> (of_char ch :: nat) = 173)"
  unfolding repr_escapes_def list_ex_iff repr_quote_def repr_char_def Let_def
  by (auto split: if_splits)


lemma sublist_not_found_message:
  assumes "c \<in> set cfgs"
  shows "sublist (py_repr (oc_name c)) (not_found_message cn mid cfgs)"
proof -
  have "py_repr (oc_name c) \<in> set (map (\<lambda>c. py_repr (oc_name c)) cfgs)"
    using assms by auto
  then have "sublist (py_repr (oc_name c)) (py_join '', '' (map (\<lambda>c. py_repr (oc_name c)) cfgs))"
    by (rule sublist_py_join)
  then obtain ps ss where
    "py_join '', '' (map (\<lambda>c. py_repr (oc_name c)) cfgs) = ps @ py_repr (oc_name c) @ ss"
    by (auto simp add: sublist_def)
  then have "not_found_message cn mid cfgs =
      (''Could not find config named '' @ py_repr cn @
       '' in FPbase microscope '' @ py_repr mid @
       ''. Available names: '' @ ps) @ py_repr (oc_name c) @ ss"
    by (simp add: not_found_message_def)
  then show ?thesis
    unfolding sublist_def by blast
qed

lemma sublist_chain: "sublist a b \<Longrightarrow> sublist b c \<Longrightarrow> sublist a c"
  by (rule sublist_order.order_trans)

text \<open>
  Claim C8, as amended. When the microscope is found, \<open>from_fpbase\<close> with a
  \<open>config_name\<close> performs that one lookup and returns the configuration built from
  the first record whose name equals \<open>config_name\<close> after \<open>lower()\<close> on both; when no
  record matches it raises a \<open>ValueError\<close> whose message contains \<open>repr(name)\<close> for
  every available name, and so the name itself whenever \<open>repr\<close> escapes none of its
  characters. Without a \<open>config_name\<close>, a \<open>microscope_id\<close> that does not contain
  \<open>"::"\<close> raises a \<open>ValueError\<close> and no lookup is performed.
\<close>

theorem from_fpbase_lookup:
  assumes "get_microscope F microscope_id = Inr fpbase_scope"
  shows "from_fpbase F microscope_id (Some config_name) =
      ((case find (\<lambda>c. py_lower (oc_name c) = py_lower config_name)
               (opticalConfigs fpbase_scope) of
          Some r \<Rightarrow>
            Inr \<lparr>OpticalConfig.name = oc_name r,
                 filters = map (filter_from_fpbase F) (oc_filters r),
                 lights = (case oc_light r of
                             None \<Rightarrow> []
                           | Some l \<Rightarrow> [LightSource_from_fpbase F l]),
                 power = None\<rparr>
        | None \<Rightarrow>
            Inl (ValueError
              (not_found_message config_name microscope_id (opticalConfigs fpbase_scope)))),
       [microscope_id])
    \<and> (\<forall>c\<in>set (opticalConfigs fpbase_scope).
          sublist (py_repr (oc_name c))
            (not_found_message config_name microscope_id (opticalConfigs fpbase_scope))
        \<and> (\<not> repr_escapes (oc_name c) \<longrightarrow>
             sublist (oc_name c)
               (not_found_message config_name microscope_id (opticalConfigs fpbase_scope))))
    \<and> (\<not> py_in ''::'' other_id \<longrightarrow>
          from_fpbase F other_id None =
            (Inl (ValueError (''If config_name is not provided, microscope_id must be '' @
                              ''in the form 'scope::config'' @ [CHR 0x27])), []))"
proof -
  have a: "from_fpbase F microscope_id (Some config_name) =
      ((case find (\<lambda>c. py_lower (oc_name c) = py_lower config_name)
               (opticalConfigs fpbase_scope) of
          Some r \<Rightarrow>
            Inr \<lparr>OpticalConfig.name = oc_name r,
                 filters = map (filter_from_fpbase F) (oc_filters r),
                 lights = (case oc_light r of
                             None \<Rightarrow> []
                           | Some l \<Rightarrow> [LightSource_from_fpbase F l]),
                 power = None\<rparr>
        | None \<Rightarrow>
            Inl (ValueError
              (not_found_message config_name microscope_id (opticalConfigs fpbase_scope)))),
       [microscope_id])"
    by (simp add: from_fpbase_def assms from_fpbase_loop_find split: option.split)
  have b: "sublist (py_repr (oc_name c))
            (not_found_message config_name microscope_id (opticalConfigs fpbase_scope))
        \<and> (\<not> repr_escapes (oc_name c) \<longrightarrow>
             sublist (oc_name c)
               (not_found_message config_name microscope_id (opticalConfigs fpbase_scope)))"
    if c: "c \<in> set (opticalConfigs fpbase_scope)" for c
  proof -
    have r: "sublist (py_repr (oc_name c))
        (not_found_message config_name microscope_id (opticalConfigs fpbase_scope))"
      using c by (rule sublist_not_found_message)
    have "sublist (oc_name c) (py_repr (oc_name c))" if "\<not> repr_escapes (oc_name c)"
    proof -
      have "py_repr (oc_name c) = [repr_quote (oc_name c)] @ oc_name c @ [repr_quote (oc_name c)]"
        using py_repr_plain [OF that] by simp
      then show ?thesis unfolding sublist_def by blast
    qed
    with r show ?thesis
      using sublist_chain by blast
  qed
  have c: "\<not> py_in ''::'' other_id \<longrightarrow>
          from_fpbase F other_id None =
            (Inl (ValueError (''If config_name is not provided, microscope_id must be '' @
                              ''in the form 'scope::config'' @ [CHR 0x27])), [])"
    by (simp add: from_fpbase_def)
  from a b c show ?thesis by blast
qed

theorem from_fpbase_lookup_witness:
  "get_microscope example_fpbase ''scopeX'' = Inr scopeX
   \<and> from_fpbase example_fpbase ''scopeX'' (Some ''fitc'') =
       (Inr \<lparr>OpticalConfig.name = ''FITC'',
             filters = [exciter, dichroic BS],
             lights = [\<lparr>LightSource.name = ''488'', spectrum = 1, power = None\<rparr>],
             power = None\<rparr>, [''scopeX''])
   \<and> from_fpbase example_fpbase ''scopeX'' (Some ''missing'') =
       (Inl (ValueError (not_found_message ''missing'' ''scopeX'' (opticalConfigs scopeX))),
        [''scopeX''])
   \<and> sublist ''FITC'' (not_found_message ''missing'' ''scopeX'' (opticalConfigs scopeX))
   \<and> sublist ''dual::view'' (not_found_message ''missing'' ''scopeX'' (opticalConfigs scopeX))
   \<and> from_fpbase example_fpbase ''scopeX'' None =
       (Inl (ValueError (''If config_name is not provided, microscope_id must be '' @
                         ''in the form 'scope::config'' @ [CHR 0x27])), [])"
proof -
  have g: "get_microscope example_fpbase ''scopeX'' = Inr scopeX"
    by (simp add: example_fpbase_def)
  note t = from_fpbase_lookup [OF g]
  have l: "py_lower ''FITC'' = ''fitc''" "py_lower ''fitc'' = ''fitc''"
    "py_lower ''missing'' = ''missing''" "py_lower ''dual::view'' = ''dual::view''"
    "py_lower [CHR ''a'', CHR 0x5C, CHR ''b''] = [CHR ''a'', CHR 0x5C, CHR ''b'']"
    by code_simp+
  have f1: "find (\<lambda>c. py_lower (oc_name c) = py_lower ''fitc'') (opticalConfigs scopeX) =
      Some \<lparr>oc_name = ''FITC'',
          oc_light = Some \<lparr>so_name = ''488'', so_spectrum = 1\<rparr>,
          oc_filters = [exciter, dichroic BS]\<rparr>"
    by (simp add: scopeX_def l)
  have f2: "find (\<lambda>c. py_lower (oc_name c) = py_lower ''missing'') (opticalConfigs scopeX) = None"
    by (simp add: scopeX_def l)
  have m1: "\<lparr>oc_name = ''FITC'',
          oc_light = Some \<lparr>so_name = ''488'', so_spectrum = 1::real\<rparr>,
          oc_filters = [exciter, dichroic BS]\<rparr> \<in> set (opticalConfigs scopeX)"
    by (simp add: scopeX_def)
  have m2: "\<lparr>oc_name = ''dual::view'', oc_light = None :: real SpectrumOwner option,
          oc_filters = [barrier]\<rparr> \<in> set (opticalConfigs scopeX)"
    by (simp add: scopeX_def)
  have e1: "\<not> repr_escapes ''FITC''"
    by (simp add: repr_escapes_def repr_quote_def repr_char_def)
  have e2: "\<not> repr_escapes ''dual::view''"
    by (simp add: repr_escapes_def repr_quote_def repr_char_def)
  have n: "\<not> py_in ''::'' ''scopeX''"
    by simp
  have r1: "from_fpbase example_fpbase ''scopeX'' (Some ''fitc'') =
       (Inr \<lparr>OpticalConfig.name = ''FITC'',
             filters = [exciter, dichroic BS],
             lights = [\<lparr>LightSource.name = ''488'', spectrum = 1, power = None\<rparr>],
             power = None\<rparr>, [''scopeX''])"
    using t [of "''fitc''" "''scopeX''"] unfolding f1
    by (simp add: example_fpbase_def LightSource_from_fpbase_def)
  have r2: "from_fpbase example_fpbase ''scopeX'' (Some ''missing'') =
       (Inl (ValueError (not_found_message ''missing'' ''scopeX'' (opticalConfigs scopeX))),
        [''scopeX''])"
    using t [of "''missing''" "''scopeX''"] unfolding f2 by simp
  have r3: "sublist ''FITC'' (not_found_message ''missing'' ''scopeX'' (opticalConfigs scopeX))"
    using t [of "''missing''" "''scopeX''"] m1 e1 by fastforce
  have r4: "sublist ''dual::view'' (not_found_message ''missing'' ''scopeX'' (opticalConfigs scopeX))"
    using t [of "''missing''" "''scopeX''"] m2 e2 by fastforce
  have r5: "from_fpbase example_fpbase ''scopeX'' None =
       (Inl (ValueError (''If config_name is not provided, microscope_id must be '' @
                         ''in the form 'scope::config'' @ [CHR 0x27])), [])"
    using t [of "''missing''" "''scopeX''"] n by blast
  from g r1 r2 r3 r4 r5 show ?thesis by blast
qed

text \<open>
  The claim as stated fails for a name that \<open>repr\<close> escapes: the configuration named
  \<open>a\b\<close> is listed as \<open>'a\\b'\<close>, and the message does not contain \<open>a\b\<close>.
\<close>

theorem from_fpbase_message_counterexample:
  "from_fpbase example_fpbase ''scopeX'' (Some ''missing'') =
     (Inl (ValueError
        (''Could not find config named 'missing' in FPbase microscope 'scopeX'. '' @
         ''Available names: 'FITC', 'a'' @ [CHR 0x5C, CHR 0x5C] @ ''b', 'dual::view'' @ [CHR 0x27])),
      [''scopeX''])
   \<and> [CHR ''a'', CHR 0x5C, CHR ''b''] \<in> set (map oc_name (opticalConfigs scopeX))
   \<and> \<not> py_in [CHR ''a'', CHR 0x5C, CHR ''b'']
        (''Could not find config named 'missing' in FPbase microscope 'scopeX'. '' @
         ''Available names: 'FITC', 'a'' @ [CHR 0x5C, CHR 0x5C] @ ''b', 'dual::view'' @ [CHR 0x27])"
  by code_simp

section \<open>The string form \<open>scope::config\<close>\<close>

lemma split_loop_no_colon:
  "CHR '':'' \<notin> set s \<Longrightarrow> split_loop cur s = [rev cur @ s]"
  by (induction cur s rule: split_loop.induct) auto

lemma split_loop_sep:
  assumes "CHR '':'' \<notin> set a" and "CHR '':'' \<notin> set b"
  shows "split_loop cur (a @ ''::'' @ b) = [rev cur @ a, b]"
  using assms(1)
proof (induction a arbitrary: cur)
  case Nil
  show ?case using split_loop_no_colon [OF assms(2), of "[]"] by simp
next
  case (Cons x xs)
  then have x: "x \<noteq> CHR '':''" and xs: "CHR '':'' \<notin> set xs" by auto
  obtain y ys where e: "xs @ ''::'' @ b = y # ys"
    by (cases "xs @ ''::'' @ b") auto
  have "split_loop cur ((x # xs) @ ''::'' @ b) = split_loop cur (x # y # ys)"
    using e by simp
  also have "\<dots> = split_loop (x # cur) (y # ys)"
    using x by simp
  also have "\<dots> = split_loop (x # cur) (xs @ ''::'' @ b)"
    using e by simp
  also have "\<dots> = [rev (x # cur) @ xs, b]"
    using Cons.IH [OF xs] .
  finally show ?case by simp
qed

lemma py_split_scope_config:
  "CHR '':'' \<notin> set a \<Longrightarrow> CHR '':'' \<notin> set b \<Longrightarrow> py_split (a @ ''::'' @ b) = [a, b]"
  using split_loop_sep [of a b "[]"] by (simp add: py_split_def)





section \<open>The configuration built from a record\<close>

text \<open>
  Claim C10. A configuration returned by \<open>from_fpbase\<close> comes from one lookup and from
  the first record \<open>r\<close> of that microscope whose name matches: its \<open>power\<close> is \<open>None\<close>,
  its lights are the one light source built from \<open>r.light\<close> when the record has a
  light and no light otherwise, never more than one, its name is \<open>r.name\<close> as stored,
  and its filters are the filters of \<open>r\<close>, converted, in the order of the record.
\<close>

theorem from_fpbase_result:
  assumes "from_fpbase F microscope_id config_name = (Inr cfg, lookups)"
  shows "\<exists>mid cn fpbase_scope r.
      (config_name = Some cn \<and> mid = microscope_id
         \<or> config_name = None \<and> py_split microscope_id = [mid, cn])
    \<and> lookups = [mid]
    \<and> get_microscope F mid = Inr fpbase_scope
    \<and> find (\<lambda>c. py_lower (oc_name c) = py_lower cn) (opticalConfigs fpbase_scope) = Some r
    \<and> OpticalConfig.power cfg = None
    \<and> lights cfg =
        (case oc_light r of
           None \<Rightarrow> []
         | Some l \<Rightarrow> [\<lparr>LightSource.name = so_name l,
                        spectrum = spectrum_from_fpbase F (so_spectrum l),
                        power = None\<rparr>])
    \<and> length (lights cfg) \<le> 1
    \<and> OpticalConfig.name cfg = oc_name r
    \<and> filters cfg = map (filter_from_fpbase F) (oc_filters r)"
proof -
  define names where "names =
    (case config_name of
       None \<Rightarrow>
         (if \<not> py_in ''::'' microscope_id then
            Inl (ValueError (''If config_name is not provided, microscope_id must be '' @
                             ''in the form 'scope::config'' @ [CHR 0x27]))
          else (case py_split microscope_id of
                  [a, b] \<Rightarrow> Inr (a, b)
                | _ \<Rightarrow> Inl UnpackError))
     | Some n \<Rightarrow> Inr (microscope_id, n))"
  have unf: "from_fpbase F microscope_id config_name =
      (case names of
         Inl e \<Rightarrow> (Inl e, [])
       | Inr (mid, cn) \<Rightarrow>
          (case get_microscope F mid of
             Inl e \<Rightarrow> (Inl e, [mid])
           | Inr fpbase_scope \<Rightarrow>
               (case from_fpbase_loop F cn (opticalConfigs fpbase_scope) of
                  Some cfg \<Rightarrow> (Inr cfg, [mid])
                | None \<Rightarrow>
                    (Inl (ValueError (not_found_message cn mid (opticalConfigs fpbase_scope))),
                     [mid]))))"
    by (simp add: from_fpbase_def names_def)
  from assms unf obtain mid cn where n: "names = Inr (mid, cn)"
    by (cases names) auto
  from assms unf n obtain fpbase_scope where g: "get_microscope F mid = Inr fpbase_scope"
    by (cases "get_microscope F mid") auto
  from assms unf n g have lp: "from_fpbase_loop F cn (opticalConfigs fpbase_scope) = Some cfg"
    and lk: "lookups = [mid]"
    by (auto split: option.splits)
  from lp obtain r where
    r: "find (\<lambda>c. py_lower (oc_name c) = py_lower cn) (opticalConfigs fpbase_scope) = Some r"
    and c: "cfg = \<lparr>OpticalConfig.name = oc_name r,
                        filters = map (filter_from_fpbase F) (oc_filters r),
                        lights = (case oc_light r of
                                    None \<Rightarrow> []
                                  | Some l \<Rightarrow> [LightSource_from_fpbase F l]),
                        power = None\<rparr>"
    unfolding from_fpbase_loop_find by auto
  have nm: "config_name = Some cn \<and> mid = microscope_id
         \<or> config_name = None \<and> py_split microscope_id = [mid, cn]"
    using n unfolding names_def
    by (auto split: option.splits if_splits list.splits)
  have li: "lights cfg =
        (case oc_light r of
           None \<Rightarrow> []
         | Some l \<Rightarrow> [\<lparr>LightSource.name = so_name l,
                        spectrum = spectrum_from_fpbase F (so_spectrum l),
                        power = None\<rparr>])"
    by (simp add: c LightSource_from_fpbase_def split: option.split)
  have le: "length (lights cfg) \<le> 1"
    by (simp add: c split: option.split)
  have rest: "OpticalConfig.power cfg = None" "OpticalConfig.name cfg = oc_name r"
    "filters cfg = map (filter_from_fpbase F) (oc_filters r)"
    by (simp_all add: c)
  from nm lk g r li le rest show ?thesis by blast
qed

theorem from_fpbase_result_witness:
  "from_fpbase example_fpbase ''scopeX::fitc'' None =
     (Inr \<lparr>OpticalConfig.name = ''FITC'',
           filters = [exciter, dichroic BS],
           lights = [\<lparr>LightSource.name = ''488'', spectrum = 1, power = None\<rparr>],
           power = None\<rparr>, [''scopeX''])
   \<and> (\<exists>r. find (\<lambda>c. py_lower (oc_name c) = py_lower ''fitc'') (opticalConfigs scopeX) = Some r
         \<and> oc_name r = ''FITC'')
   \<and> OpticalConfig.power \<lparr>OpticalConfig.name = ''FITC'',
           filters = [exciter, dichroic BS],
           lights = [\<lparr>LightSource.name = ''488'', spectrum = 1::real, power = None\<rparr>],
           power = None\<rparr> = None"
proof -
  have l: "py_lower ''FITC'' = ''fitc''" "py_lower ''fitc'' = ''fitc''"
    by code_simp+
  have s: "py_split ''scopeX::fitc'' = [''scopeX'', ''fitc'']"
    using py_split_scope_config [of "''scopeX''" "''fitc''"] by simp
  have f: "from_fpbase example_fpbase ''scopeX::fitc'' None =
     (Inr \<lparr>OpticalConfig.name = ''FITC'',
           filters = [exciter, dichroic BS],
           lights = [\<lparr>LightSource.name = ''488'', spectrum = 1, power = None\<rparr>],
           power = None\<rparr>, [''scopeX''])"
    by (simp add: from_fpbase_def s example_fpbase_def scopeX_def l LightSource_from_fpbase_def)
  from from_fpbase_result [OF f] obtain mid cn fpbase_scope r where
    h: "py_split ''scopeX::fitc'' = [mid, cn]"
      "get_microscope example_fpbase mid = Inr fpbase_scope"
      "find (\<lambda>c. py_lower (oc_name c) = py_lower cn) (opticalConfigs fpbase_scope) = Some r"
      "''FITC'' = oc_name r"
    by auto
  from h(1) s have "mid = ''scopeX''" "cn = ''fitc''" by simp_all
  with h(2) have "fpbase_scope = scopeX" by (simp add: example_fpbase_def)
  with h(3,4) \<open>cn = ''fitc''\<close> have
    "\<exists>r. find (\<lambda>c. py_lower (oc_name c) = py_lower ''fitc'') (opticalConfigs scopeX) = Some r
         \<and> oc_name r = ''FITC''"
    by auto
  with f show ?thesis by simp
qed

end
